theory Spec2Isabelle
  imports Complex_Main "HOL-Library.Sublist"
begin

section \<open>Data model (include/equipment\_controller.h)\<close>

datatype EquipmentStatus = IDLE | RUNNING | PAUSED | ERROR | MAINTENANCE

text \<open>
  A C++ \<^verbatim>\<open>double\<close>.  Finite values are kept as the exact rational they denote (binary
  rounding and the sign of zero are not represented); the two infinities and NaN are
  separate values.
\<close>

datatype double = Finite rat | Infinite bool | NaN

record EquipmentConfig =
  device_port :: string
  baud_rate :: int
  measurement_tolerance :: double
  max_retry_attempts :: int
  enable_logging :: bool
  log_file_path :: string

text \<open>
  \<^verbatim>\<open>TestResult result;\<close> default-initialises the struct: the strings are empty, the
  \<^verbatim>\<open>bool\<close> and the \<^verbatim>\<open>double\<close> hold no determinate value until assigned.  \<open>None\<close> is a
  field that was never assigned.
\<close>

record TestResult =
  test_id :: string
  device_id :: string
  passed :: "bool option"
  measurement_value :: "double option"
  units :: string
  timestamp :: string
  notes' :: string

definition default_TestResult :: TestResult where
  "default_TestResult =
     \<lparr>test_id = [], device_id = [], passed = None, measurement_value = None,
      units = [], timestamp = [], notes' = []\<rparr>"

section \<open>The environment of the controller\<close>

text \<open>
  What the controller does to the outside world, in program order: the calls of the
  registered \<^verbatim>\<open>StatusCallback\<close>, the calls of the \<^verbatim>\<open>HardwareInterface\<close> methods that reach
  the line, and \<^verbatim>\<open>std::this_thread::sleep_for\<close> (in milliseconds).
\<close>

datatype event =
    Notified EquipmentStatus string
  | Connect string int
  | SendCommand string
  | ReceiveResponse int
  | SleepFor nat

text \<open>
  \<^verbatim>\<open>struct tm\<close>, the fields that \<^verbatim>\<open>%Y-%m-%d %H:%M:%S\<close> reads.
\<close>

record tm =
  tm_year :: int
  tm_mon :: int
  tm_mday :: int
  tm_hour :: int
  tm_min :: int
  tm_sec :: int

text \<open>
  The operating system, the C library and the device at the other end of the line are
  parameters of the model: \<open>localtime\<close> is \<^verbatim>\<open>std::localtime\<close> on a \<^verbatim>\<open>time_t\<close> in seconds;
  \<open>underflow_erange\<close> tells, for the exact value of a number whose magnitude is below the
  smallest normal double, whether \<^verbatim>\<open>strtod\<close> sets \<^verbatim>\<open>errno\<close> to \<^verbatim>\<open>ERANGE\<close> (the C standard
  leaves this to the implementation); \<open>port_opens\<close> tells whether \<^verbatim>\<open>open\<close>, \<^verbatim>\<open>tcgetattr\<close>
  and \<^verbatim>\<open>tcsetattr\<close> all succeed on a port; \<open>port_writes\<close> tells whether \<^verbatim>\<open>write\<close> takes all
  the bytes handed to it; \<open>port_reads\<close> gives the bytes that the read loop of
  \<^verbatim>\<open>receiveResponse\<close> has accumulated when it ends (on a newline or on the timeout).  The
  last two may depend on everything that happened before.
\<close>

record platform =
  localtime :: "int \<Rightarrow> tm"
  underflow_erange :: "rat \<Rightarrow> bool"
  port_opens :: "string \<Rightarrow> int \<Rightarrow> bool"
  port_writes :: "event list \<Rightarrow> string \<Rightarrow> bool"
  port_reads :: "event list \<Rightarrow> int \<Rightarrow> string"

section \<open>SerialInterface (src/cpp/equipment\_controller.cpp)\<close>

record SerialInterface =
  connected :: bool

definition SerialInterface_new :: SerialInterface where
  "SerialInterface_new = \<lparr>connected = False\<rparr>"

definition connect :: "platform \<Rightarrow> string \<Rightarrow> int \<Rightarrow> SerialInterface \<Rightarrow> bool \<times> SerialInterface" where
  "connect pf port baud hw =
     (if \<not> port_opens pf port baud then (False, hw)
      else (True, hw\<lparr>connected := True\<rparr>))"

definition sendCommand :: "platform \<Rightarrow> event list \<Rightarrow> string \<Rightarrow> SerialInterface \<Rightarrow> bool" where
  "sendCommand pf tr command hw =
     (if \<not> connected hw then False
      else port_writes pf tr (command @ [CHR 0x0D, CHR 0x0A]))"

definition isspace :: "char \<Rightarrow> bool" where
  "isspace c \<longleftrightarrow> c = CHR '' '' \<or> c = CHR 0x09 \<or> c = CHR 0x0A \<or> c = CHR 0x0B
     \<or> c = CHR 0x0C \<or> c = CHR 0x0D"

definition erase_trailing_space :: "string \<Rightarrow> string" where
  "erase_trailing_space response = rev (dropWhile isspace (rev response))"

definition receiveResponse :: "platform \<Rightarrow> event list \<Rightarrow> int \<Rightarrow> SerialInterface \<Rightarrow> string" where
  "receiveResponse pf tr timeout_ms hw =
     (if \<not> connected hw then []
      else erase_trailing_space (port_reads pf tr timeout_ms))"

definition isConnected :: "SerialInterface \<Rightarrow> bool" where
  "isConnected hw = connected hw"

definition createHardwareInterface :: "string \<Rightarrow> SerialInterface option" where
  "createHardwareInterface interface_type =
     (if interface_type = ''serial'' then Some SerialInterface_new else None)"

section \<open>EquipmentController::Impl\<close>

text \<open>
  The fields of \<^verbatim>\<open>Impl\<close>.  \<open>config\<close> is \<open>None\<close> until \<^verbatim>\<open>initialize\<close> stores one;
  \<open>statusCallback\<close> tells whether the \<^verbatim>\<open>std::function\<close> holds a target; \<open>hardware\<close> is the
  \<^verbatim>\<open>unique_ptr\<close>, \<open>None\<close> when null.  \<open>trace\<close> is not a field of the class: it records the
  events the object has caused so far.  The mutex and the worker thread are left out: the
  model runs one call at a time.
\<close>

record Impl =
  status :: EquipmentStatus
  config :: "EquipmentConfig option"
  lastError :: string
  statusCallback :: bool
  hardware :: "SerialInterface option"
  shouldStop :: bool
  trace :: "event list"

definition Impl_new :: Impl where
  "Impl_new =
     \<lparr>status = IDLE, config = None, lastError = [], statusCallback = False,
      hardware = None, shouldStop = False, trace = []\<rparr>"

definition emit :: "event \<Rightarrow> Impl \<Rightarrow> Impl" where
  "emit e s = s\<lparr>trace := trace s @ [e]\<rparr>"

definition setStatus :: "EquipmentStatus \<Rightarrow> string \<Rightarrow> Impl \<Rightarrow> Impl" where
  "setStatus newStatus message s =
     (let s1 = s\<lparr>status := newStatus\<rparr>
      in if statusCallback s1 then emit (Notified (status s1) message) s1 else s1)"

section \<open>EquipmentController: the state machine\<close>

definition start :: "Impl \<Rightarrow> bool \<times> Impl" where
  "start s =
     (if status s \<noteq> IDLE \<and> status s \<noteq> PAUSED
      then (False, s\<lparr>lastError := ''Equipment must be in IDLE or PAUSED state to start''\<rparr>)
      else (True, setStatus RUNNING ''Equipment started'' s))"

definition stop :: "Impl \<Rightarrow> bool \<times> Impl" where
  "stop s =
     (if status s = IDLE then (True, s)
      else (True, setStatus IDLE ''Equipment stopped'' s))"

definition pause :: "Impl \<Rightarrow> bool \<times> Impl" where
  "pause s =
     (if status s \<noteq> RUNNING
      then (False, s\<lparr>lastError := ''Equipment must be running to pause''\<rparr>)
      else (True, setStatus PAUSED ''Equipment paused'' s))"

definition resume :: "Impl \<Rightarrow> bool \<times> Impl" where
  "resume s =
     (if status s \<noteq> PAUSED
      then (False, s\<lparr>lastError := ''Equipment must be paused to resume''\<rparr>)
      else (True, setStatus RUNNING ''Equipment resumed'' s))"

definition getStatus :: "Impl \<Rightarrow> EquipmentStatus" where
  "getStatus s = status s"

definition getLastError :: "Impl \<Rightarrow> string" where
  "getLastError s = lastError s"

definition setStatusCallback :: "bool \<Rightarrow> Impl \<Rightarrow> Impl" where
  "setStatusCallback callback s = s\<lparr>statusCallback := callback\<rparr>"

section \<open>Library functions used by the controller\<close>

subsection \<open>std::getline on a string stream\<close>

text \<open>
  One call of \<^verbatim>\<open>std::getline(iss, token, delim)\<close> on the unread characters \<open>buf\<close> of a
  stream whose state is good.  \<open>None\<close>: nothing was extracted (the input was at its end),
  the call sets \<^verbatim>\<open>failbit\<close>.  Otherwise the token and the state the stream is left in:
  \<open>Some rest\<close> when the delimiter was found and removed, \<open>None\<close> when the end of the input
  was reached, which sets \<^verbatim>\<open>eofbit\<close> and makes the next call fail.
\<close>

definition getline :: "string \<Rightarrow> char \<Rightarrow> (string \<times> string option) option" where
  "getline buf delim =
     (if buf = [] then None
      else (case dropWhile (\<lambda>c. c \<noteq> delim) buf of
              [] \<Rightarrow> Some (buf, None)
            | _ # rest \<Rightarrow> Some (takeWhile (\<lambda>c. c \<noteq> delim) buf, Some rest)))"

text \<open>
  \<^verbatim>\<open>while (std::getline(iss, token, ':')) tokens.push_back(token);\<close> on a stream in the
  given state (\<open>None\<close>: \<^verbatim>\<open>eofbit\<close> is set).
\<close>

function split_tokens :: "string option \<Rightarrow> string list" where
  "split_tokens None = []"
| "split_tokens (Some buf) =
     (case getline buf (CHR '':'') of
        None \<Rightarrow> []
      | Some (token, iss) \<Rightarrow> token # split_tokens iss)"
  by pat_completeness auto
termination
proof (relation "measure (\<lambda>st. case st of None \<Rightarrow> 0 | Some buf \<Rightarrow> Suc (length buf))")
  show "wf (measure (\<lambda>st. case st of None \<Rightarrow> 0 | Some buf \<Rightarrow> Suc (length buf)))"
    by simp
next
  fix buf :: string and x2 :: "string \<times> string option" and token :: string
    and iss :: "string option"
  assume g: "getline buf (CHR '':'') = Some x2" and x: "(token, iss) = x2"
  show "(iss, Some buf) \<in> measure (\<lambda>st. case st of None \<Rightarrow> 0 | Some buf \<Rightarrow> Suc (length buf))"
  proof (cases iss)
    case None
    then show ?thesis by simp
  next
    case (Some rest)
    with g x have "dropWhile (\<lambda>c. c \<noteq> CHR '':'') buf = CHR '':'' # rest \<or>
        (\<exists>d. dropWhile (\<lambda>c. c \<noteq> CHR '':'') buf = d # rest)"
      by (auto simp: getline_def split: if_splits list.splits)
    then obtain d where "dropWhile (\<lambda>c. c \<noteq> CHR '':'') buf = d # rest" by blast
    then have "Suc (length rest) = length (dropWhile (\<lambda>c. c \<noteq> CHR '':'') buf)" by simp
    also have "\<dots> \<le> length buf" by (rule length_dropWhile_le)
    finally show ?thesis using Some by simp
  qed
qed

subsection \<open>std::string::find\<close>

text \<open>\<^verbatim>\<open>s.find(pat)\<close>: the first position where \<open>pat\<close> occurs, \<open>None\<close> for \<^verbatim>\<open>npos\<close>.\<close>

fun find_str :: "string \<Rightarrow> string \<Rightarrow> nat option" where
  "find_str [] pat = (if pat = [] then Some 0 else None)"
| "find_str (c # cs) pat =
     (if prefix pat (c # cs) then Some 0 else map_option Suc (find_str cs pat))"

subsection \<open>std::stod\<close>

text \<open>
  \<^verbatim>\<open>std::stod\<close> hands the characters to \<^verbatim>\<open>strtod\<close>, throws \<^verbatim>\<open>std::invalid_argument\<close> when no
  conversion was made and \<^verbatim>\<open>std::out_of_range\<close> when \<^verbatim>\<open>errno\<close> is \<^verbatim>\<open>ERANGE\<close>; characters after
  the number are ignored.  \<open>what\<close> is the text libstdc++ gives both exceptions.  The
  subject sequence is that of the C standard in the C locale: white space, a sign, then a
  decimal number, a hexadecimal number, \<^verbatim>\<open>inf\<close> or \<^verbatim>\<open>nan\<close>.  The result is the exact value
  of the digits.  \<^verbatim>\<open>ERANGE\<close> is set on overflow, a magnitude that rounds (to nearest, ties to
  even) beyond the largest double \<open>2 ^ 1024 - 2 ^ 971\<close>.  For a nonzero magnitude below the
  smallest normal double \<open>1 / 2 ^ 1022\<close> the library decides (\<open>underflow_erange\<close>); a value
  in the normal range never sets it.
\<close>

datatype std_exception = invalid_argument string | out_of_range string

fun what :: "std_exception \<Rightarrow> string" where
  "what (invalid_argument msg) = msg"
| "what (out_of_range msg) = msg"

definition isdigit :: "char \<Rightarrow> bool" where
  "isdigit c \<longleftrightarrow> 48 \<le> (of_char c :: nat) \<and> (of_char c :: nat) \<le> 57"

definition isxdigit :: "char \<Rightarrow> bool" where
  "isxdigit c \<longleftrightarrow> isdigit c \<or> (65 \<le> (of_char c :: nat) \<and> (of_char c :: nat) \<le> 70)
     \<or> (97 \<le> (of_char c :: nat) \<and> (of_char c :: nat) \<le> 102)"

definition tolower :: "char \<Rightarrow> char" where
  "tolower c =
     (if 65 \<le> (of_char c :: nat) \<and> (of_char c :: nat) \<le> 90
      then char_of ((of_char c :: nat) + 32) else c)"

definition xdigit_val :: "char \<Rightarrow> nat" where
  "xdigit_val c =
     (let n = (of_char c :: nat)
      in if n \<le> 57 then n - 48 else if n \<le> 70 then n - 55 else n - 87)"

definition digits_val :: "nat \<Rightarrow> string \<Rightarrow> nat" where
  "digits_val base ds = foldl (\<lambda>a c. a * base + xdigit_val c) 0 ds"

definition scale :: "nat \<Rightarrow> nat \<Rightarrow> int \<Rightarrow> rat" where
  "scale m b e =
     (if 0 \<le> e then of_nat m * of_nat b ^ nat e else of_nat m / of_nat b ^ nat (- e))"

text \<open>
  The digits before the radix character, the digits after it, and what follows.
\<close>

definition mantissa :: "(char \<Rightarrow> bool) \<Rightarrow> string \<Rightarrow> string \<times> string \<times> string" where
  "mantissa isd s =
     (let ip = takeWhile isd s; r1 = dropWhile isd s
      in case r1 of
           [] \<Rightarrow> (ip, [], [])
         | c # r2 \<Rightarrow>
             if c = CHR ''.'' then (ip, takeWhile isd r2, dropWhile isd r2)
             else (ip, [], r1))"

text \<open>
  The exponent part introduced by \<open>mark\<close> (\<^verbatim>\<open>e\<close> or \<^verbatim>\<open>p\<close>, either case); it counts only when
  at least one digit follows the optional sign.
\<close>

definition exponent_part :: "char \<Rightarrow> string \<Rightarrow> int" where
  "exponent_part mark r =
     (case r of
        [] \<Rightarrow> 0
      | c # r1 \<Rightarrow>
          if tolower c \<noteq> mark then 0
          else
            (let neg = (r1 \<noteq> [] \<and> hd r1 = CHR ''-'');
                 r2 = (if r1 \<noteq> [] \<and> (hd r1 = CHR ''+'' \<or> hd r1 = CHR ''-'') then tl r1 else r1);
                 ds = takeWhile isdigit r2
             in if ds = [] then 0
                else if neg then - int (digits_val 10 ds) else int (digits_val 10 ds)))"

definition strtod_magnitude :: "string \<Rightarrow> double option" where
  "strtod_magnitude s =
     (if prefix ''inf'' (map tolower s) then Some (Infinite False)
      else if prefix ''nan'' (map tolower s) then Some NaN
      else if prefix ''0x'' (map tolower s)
              \<and> (case mantissa isxdigit (drop 2 s) of (ip, fp, r) \<Rightarrow> ip @ fp \<noteq> [])
      then (case mantissa isxdigit (drop 2 s) of
              (ip, fp, r) \<Rightarrow>
                Some (Finite (scale (digits_val 16 (ip @ fp)) 2
                        (exponent_part (CHR ''p'') r - 4 * int (length fp)))))
      else (case mantissa isdigit s of
              (ip, fp, r) \<Rightarrow>
                if ip @ fp = [] then None
                else Some (Finite (scale (digits_val 10 (ip @ fp)) 10
                             (exponent_part (CHR ''e'') r - int (length fp))))))"

definition erange :: "platform \<Rightarrow> rat \<Rightarrow> bool" where
  "erange pf v \<longleftrightarrow>
     2 ^ 1024 - 2 ^ 970 \<le> \<bar>v\<bar>
     \<or> (0 < \<bar>v\<bar> \<and> \<bar>v\<bar> < 1 / 2 ^ 1022 \<and> underflow_erange pf v)"

definition stod :: "platform \<Rightarrow> string \<Rightarrow> std_exception + double" where
  "stod pf str =
     (let s = dropWhile isspace str;
          neg = (s \<noteq> [] \<and> hd s = CHR ''-'');
          body = (if s \<noteq> [] \<and> (hd s = CHR ''+'' \<or> hd s = CHR ''-'') then tl s else s)
      in case strtod_magnitude body of
           None \<Rightarrow> Inl (invalid_argument ''stod'')
         | Some (Finite v) \<Rightarrow>
             if erange pf v then Inl (out_of_range ''stod'')
             else Inr (Finite (if neg then - v else v))
         | Some (Infinite _) \<Rightarrow> Inr (Infinite neg)
         | Some NaN \<Rightarrow> Inr NaN)"

subsection \<open>The clock\<close>

text \<open>
  \<^verbatim>\<open>std::chrono::system_clock::now()\<close> is an argument of the model: the nanoseconds since
  the epoch at the instant of the call.  \<^verbatim>\<open>to_time_t\<close> truncates it to whole seconds.
\<close>

definition to_time_t :: "int \<Rightarrow> int" where
  "to_time_t now =
     (if 0 \<le> now then now div 1000000000 else - ((- now) div 1000000000))"

fun show_nat :: "nat \<Rightarrow> string" where
  "show_nat n =
     (if n < 10 then [char_of (48 + n)]
      else show_nat (n div 10) @ [char_of (48 + n mod 10)])"

declare show_nat.simps [simp del]

definition show_int :: "int \<Rightarrow> string" where
  "show_int i = (if i < 0 then CHR ''-'' # show_nat (nat (- i)) else show_nat (nat i))"

definition pad2 :: "int \<Rightarrow> string" where
  "pad2 i = (if 0 \<le> i \<and> i < 10 then CHR ''0'' # show_int i else show_int i)"

text \<open>\<^verbatim>\<open>std::put_time(t, "%Y-%m-%d %H:%M:%S")\<close>.\<close>

definition put_time :: "tm \<Rightarrow> string" where
  "put_time t =
     show_int (1900 + tm_year t) @ ''-'' @ pad2 (tm_mon t + 1) @ ''-'' @ pad2 (tm_mday t)
       @ '' '' @ pad2 (tm_hour t) @ '':'' @ pad2 (tm_min t) @ '':'' @ pad2 (tm_sec t)"

definition getCurrentTimestamp :: "platform \<Rightarrow> int \<Rightarrow> string" where
  "getCurrentTimestamp pf now = put_time (localtime pf (to_time_t now))"

section \<open>EquipmentController: initialisation, tests, calibration, health\<close>

definition initialize :: "platform \<Rightarrow> EquipmentConfig \<Rightarrow> Impl \<Rightarrow> bool \<times> Impl" where
  "initialize pf cfg s =
     (let s1 = s\<lparr>config := Some cfg, hardware := createHardwareInterface ''serial''\<rparr>
      in case hardware s1 of
           None \<Rightarrow>
             (False, setStatus ERROR ''Failed to create hardware interface''
                       (s1\<lparr>lastError := ''Failed to create hardware interface''\<rparr>))
         | Some hw \<Rightarrow>
             (let (ok, hw') = connect pf (device_port cfg) (baud_rate cfg) hw;
                  s2 = emit (Connect (device_port cfg) (baud_rate cfg)) (s1\<lparr>hardware := Some hw'\<rparr>)
              in if \<not> ok
                 then (False, setStatus IDLE ''Equipment initialized (simulation mode)''
                                (s2\<lparr>lastError := ''Failed to connect to device on port ''
                                                     @ device_port cfg\<rparr>))
                 else (True, setStatus IDLE ''Equipment initialized successfully'' s2)))"

text \<open>
  \<^verbatim>\<open>std::string command = "TEST:" + device_id; for (param : test_parameters) command += ":" + param;\<close>
\<close>

definition test_command :: "string \<Rightarrow> string list \<Rightarrow> string" where
  "test_command dev_id test_parameters =
     foldl (\<lambda>command param. command @ '':'' @ param) (''TEST:'' @ dev_id) test_parameters"

text \<open>
  The \<^verbatim>\<open>try\<close> block of \<^verbatim>\<open>runTest\<close>.  \<open>Inl e\<close>: the block was left by the exception \<open>e\<close>; the
  only statement that throws is the call of \<^verbatim>\<open>std::stod\<close>, before which the block has not
  written to \<open>result\<close>.  \<open>Inr r\<close>: the block ended, by one of its \<^verbatim>\<open>return\<close>s or at its end,
  with \<open>result\<close> equal to \<open>r\<close>.
\<close>

definition runTest_try ::
  "platform \<Rightarrow> string \<Rightarrow> string list \<Rightarrow> SerialInterface \<Rightarrow> TestResult \<Rightarrow> Impl
     \<Rightarrow> (std_exception + TestResult) \<times> Impl" where
  "runTest_try pf dev_id test_parameters hw result s =
     (let command = test_command dev_id test_parameters;
          sent = sendCommand pf (trace s) command hw;
          s1 = emit (SendCommand command) s
      in if \<not> sent
         then (Inr (result\<lparr>passed := Some False, notes' := ''Failed to send test command''\<rparr>), s1)
         else
           (let response = receiveResponse pf (trace s1) 5000 hw;
                s2 = emit (ReceiveResponse 5000) s1
            in if response = []
               then (Inr (result\<lparr>passed := Some False, notes' := ''No response from device''\<rparr>), s2)
               else
                 (let tokens = split_tokens (Some response)
                  in if 4 \<le> length tokens \<and> tokens ! 0 = ''RESULT''
                     then (case stod pf (tokens ! 1) of
                             Inl e \<Rightarrow> (Inl e, s2)
                           | Inr v \<Rightarrow>
                               (Inr (result\<lparr>measurement_value := Some v,
                                            units := tokens ! 2,
                                            passed := Some (tokens ! 3 = ''PASS''),
                                            notes' := ''Test completed successfully''\<rparr>), s2))
                     else (Inr (result\<lparr>passed := Some False,
                                       notes' := ''Invalid response format: '' @ response\<rparr>), s2))))"

text \<open>
  \<open>dev_id\<close> is the argument \<^verbatim>\<open>device_id\<close>; \<open>now1\<close> and \<open>now2\<close> are the clock readings of
  the two calls of \<^verbatim>\<open>getCurrentTimestamp\<close>.
\<close>

definition runTest ::
  "platform \<Rightarrow> int \<Rightarrow> int \<Rightarrow> string \<Rightarrow> string list \<Rightarrow> Impl \<Rightarrow> TestResult \<times> Impl" where
  "runTest pf now1 now2 dev_id test_parameters s =
     (let result = default_TestResult
            \<lparr>device_id := dev_id,
             test_id := ''TEST_'' @ getCurrentTimestamp pf now1,
             timestamp := getCurrentTimestamp pf now2\<rparr>
      in if status s \<noteq> RUNNING
         then (result\<lparr>passed := Some False, notes' := ''Equipment not in running state''\<rparr>, s)
         else
           (case hardware s of
              None \<Rightarrow> (result\<lparr>passed := Some False, notes' := ''Hardware not connected''\<rparr>, s)
            | Some hw \<Rightarrow>
                if \<not> isConnected hw
                then (result\<lparr>passed := Some False, notes' := ''Hardware not connected''\<rparr>, s)
                else
                  (case runTest_try pf dev_id test_parameters hw result s of
                     (Inr result', s') \<Rightarrow> (result', s')
                   | (Inl e, s') \<Rightarrow>
                       (result\<lparr>passed := Some False,
                               notes' := ''Test execution error: '' @ what e\<rparr>, s'))))"

definition calibrate :: "platform \<Rightarrow> Impl \<Rightarrow> bool \<times> Impl" where
  "calibrate pf s =
     (if status s \<noteq> IDLE
      then (False, s\<lparr>lastError := ''Equipment must be idle for calibration''\<rparr>)
      else
        (let s1 = setStatus MAINTENANCE ''Calibration in progress'' s;
             s2 = emit (SleepFor 2000) s1
         in case hardware s2 of
              None \<Rightarrow> (False, setStatus ERROR ''Calibration failed'' s2)
            | Some hw \<Rightarrow>
                if isConnected hw
                then
                  (let sent = sendCommand pf (trace s2) ''CALIBRATE'' hw;
                       s3 = emit (SendCommand ''CALIBRATE'') s2;
                       response = receiveResponse pf (trace s3) 10000 hw;
                       s4 = emit (ReceiveResponse 10000) s3
                   in if find_str response ''CAL_OK'' \<noteq> None
                      then (True, setStatus IDLE ''Calibration completed successfully'' s4)
                      else (False, setStatus ERROR ''Calibration failed'' s4))
                else (False, setStatus ERROR ''Calibration failed'' s2)))"

definition getHealthMetrics :: "Impl \<Rightarrow> (string \<times> double) list \<times> Impl" where
  "getHealthMetrics s =
     ([(''Temperature'', Finite 23.5),
       (''Vibration'', Finite 0.02),
       (''Power_Consumption'', Finite 125.3),
       (''Uptime_Hours'', Finite 1234.5),
       (''Error_Rate'', Finite 0.001)], s)"

section \<open>Sequences of calls\<close>

datatype transition = Start | Stop | Pause | Resume

fun perform :: "transition \<Rightarrow> Impl \<Rightarrow> bool \<times> Impl" where
  "perform Start s = start s"
| "perform Stop s = stop s"
| "perform Pause s = pause s"
| "perform Resume s = resume s"

fun perform_all :: "transition list \<Rightarrow> Impl \<Rightarrow> Impl" where
  "perform_all [] s = s"
| "perform_all (t # ts) s = perform_all ts (snd (perform t s))"

text \<open>
  Every public operation of the controller, with its arguments.  \<open>call\<close> gives the
  outcome a caller sees as success or failure (the \<^verbatim>\<open>bool\<close> returned, \<^verbatim>\<open>passed\<close> for
  \<^verbatim>\<open>runTest\<close>, success for the accessors) and the state afterwards.
\<close>

datatype operation =
    Initialize EquipmentConfig
  | Change transition
  | RunTest int int string "string list"
  | GetStatus
  | GetLastError
  | SetStatusCallback bool
  | Calibrate
  | GetHealthMetrics

fun call :: "platform \<Rightarrow> operation \<Rightarrow> Impl \<Rightarrow> bool \<times> Impl" where
  "call pf (Initialize cfg) s = initialize pf cfg s"
| "call pf (Change t) s = perform t s"
| "call pf (RunTest now1 now2 dev_id test_parameters) s =
     (case runTest pf now1 now2 dev_id test_parameters s of
        (result, s') \<Rightarrow> (passed result = Some True, s'))"
| "call pf GetStatus s = (True, s)"
| "call pf GetLastError s = (True, s)"
| "call pf (SetStatusCallback callback) s = (True, setStatusCallback callback s)"
| "call pf Calibrate s = calibrate pf s"
| "call pf GetHealthMetrics s = (True, snd (getHealthMetrics s))"

text \<open>
  Running a list of calls: the state at the end, and whether every call succeeded.
\<close>

fun call_all :: "platform \<Rightarrow> operation list \<Rightarrow> Impl \<Rightarrow> bool \<times> Impl" where
  "call_all pf [] s = (True, s)"
| "call_all pf (c # cs) s =
     (case call pf c s of
        (ok, s') \<Rightarrow> (case call_all pf cs s' of (oks, s'') \<Rightarrow> (ok \<and> oks, s'')))"

text \<open>
  Whether every call of a list, run from state \<open>s\<close>, either succeeds or is a call of
  \<^verbatim>\<open>runTest\<close>.
\<close>

fun is_RunTest :: "operation \<Rightarrow> bool" where
  "is_RunTest (RunTest now1 now2 dev_id test_parameters) = True"
| "is_RunTest _ = False"

fun quiet :: "platform \<Rightarrow> operation list \<Rightarrow> Impl \<Rightarrow> bool" where
  "quiet pf [] s = True"
| "quiet pf (c # cs) s =
     ((is_RunTest c \<or> fst (call pf c s)) \<and> quiet pf cs (snd (call pf c s)))"

text \<open>
  The message that a failing call leaves in \<^verbatim>\<open>lastError\<close>, for the failures that leave one:
  a request refused in the current status, an \<^verbatim>\<open>initialize\<close> whose connect fails, and a
  \<^verbatim>\<open>calibrate\<close> called in a status other than Idle.
\<close>

fun refusal :: "transition \<Rightarrow> string option" where
  "refusal Start = Some ''Equipment must be in IDLE or PAUSED state to start''"
| "refusal Stop = None"
| "refusal Pause = Some ''Equipment must be running to pause''"
| "refusal Resume = Some ''Equipment must be paused to resume''"

fun recorded :: "operation \<Rightarrow> Impl \<Rightarrow> string option" where
  "recorded (Initialize cfg) s = Some (''Failed to connect to device on port '' @ device_port cfg)"
| "recorded (Change t) s = refusal t"
| "recorded Calibrate s =
     (if status s \<noteq> IDLE then Some ''Equipment must be idle for calibration'' else None)"
| "recorded _ s = None"

section \<open>The transition table of the specification\<close>

text \<open>
  The table of legal transitions as the specification words it: the status a request
  leads to, \<open>None\<close> when the table has no row for the request in that status.
\<close>

fun table :: "transition \<Rightarrow> EquipmentStatus \<Rightarrow> EquipmentStatus option" where
  "table Start st = (if st = IDLE \<or> st = PAUSED then Some RUNNING else None)"
| "table Stop st = Some IDLE"
| "table Pause st = (if st = RUNNING then Some PAUSED else None)"
| "table Resume st = (if st = PAUSED then Some RUNNING else None)"

text \<open>
  The status after a list of requests, going by the table alone: a request without a row
  changes nothing.
\<close>

fun follow :: "transition list \<Rightarrow> EquipmentStatus \<Rightarrow> EquipmentStatus" where
  "follow [] st = st"
| "follow (t # ts) st = follow ts (case table t st of Some st' \<Rightarrow> st' | None \<Rightarrow> st)"

text \<open>
  The statuses the table commits along a list of requests, in order: one entry for each
  request that changes the status.
\<close>

fun committed :: "transition list \<Rightarrow> EquipmentStatus \<Rightarrow> EquipmentStatus list" where
  "committed [] st = []"
| "committed (t # ts) st =
     (case table t st of
        None \<Rightarrow> committed ts st
      | Some st' \<Rightarrow> if st' = st then committed ts st else st' # committed ts st')"

section \<open>What a subscriber and the line see\<close>

text \<open>The calls of the status callback among the events, in order.\<close>

fun notifications :: "event list \<Rightarrow> (EquipmentStatus \<times> string) list" where
  "notifications [] = []"
| "notifications (Notified st message # es) = (st, message) # notifications es"
| "notifications (_ # es) = notifications es"

text \<open>
  The event \<^verbatim>\<open>setStatus\<close> adds when it writes a status in state \<open>s\<close>: the call of the
  callback when one is registered, nothing otherwise.
\<close>

definition told :: "Impl \<Rightarrow> EquipmentStatus \<Rightarrow> string \<Rightarrow> event list" where
  "told s st message = (if statusCallback s then [Notified st message] else [])"

text \<open>The message each request passes to \<^verbatim>\<open>setStatus\<close>.\<close>

fun announcement :: "transition \<Rightarrow> string" where
  "announcement Start = ''Equipment started''"
| "announcement Stop = ''Equipment stopped''"
| "announcement Pause = ''Equipment paused''"
| "announcement Resume = ''Equipment resumed''"

section \<open>Example platforms\<close>

text \<open>
  \<^verbatim>\<open>localtime\<close> on a host whose time zone is UTC: the civil date of a count of seconds
  since 1970-01-01 00:00:00.
\<close>

definition gmtime :: "int \<Rightarrow> tm" where
  "gmtime t =
     (let days = t div 86400; secs = t mod 86400;
          z = days + 719468; era = z div 146097; doe = z mod 146097;
          yoe = (doe - doe div 1460 + doe div 36524 - doe div 146096) div 365;
          doy = doe - (365 * yoe + yoe div 4 - yoe div 100);
          mp = (5 * doy + 2) div 153;
          d = doy - (153 * mp + 2) div 5 + 1;
          m = (if mp < 10 then mp + 3 else mp - 9);
          y = yoe + era * 400 + (if m \<le> 2 then 1 else 0)
      in \<lparr>tm_year = y - 1900, tm_mon = m - 1, tm_mday = d,
          tm_hour = secs div 3600, tm_min = (secs mod 3600) div 60, tm_sec = secs mod 60\<rparr>)"

text \<open>
  \<^verbatim>\<open>strtod\<close> of glibc on x86-64: an underflowing result sets \<^verbatim>\<open>ERANGE\<close> when it is tiny after
  rounding (its magnitude stays below the smallest normal double when rounded to 53
  bits, that is, it lies below \<open>1 / 2 ^ 1022 - 1 / 2 ^ 1076\<close>) and inexact (not a multiple
  of the smallest subnormal \<open>1 / 2 ^ 1074\<close>).
\<close>

definition glibc_underflow :: "rat \<Rightarrow> bool" where
  "glibc_underflow v \<longleftrightarrow>
     \<bar>v\<bar> < 1 / 2 ^ 1022 - 1 / 2 ^ 1076 \<and> of_int \<lfloor>v * 2 ^ 1074\<rfloor> \<noteq> v * 2 ^ 1074"

text \<open>A host without the device: no port can be opened.\<close>

definition bench :: platform where
  "bench =
     \<lparr>localtime = gmtime, underflow_erange = glibc_underflow,
      port_opens = (\<lambda>port baud. False),
      port_writes = (\<lambda>tr bytes. False), port_reads = (\<lambda>tr timeout_ms. [])\<rparr>"

text \<open>
  A host with a device on every port that takes every command and answers each read
  with the same line.
\<close>

definition rig :: "string \<Rightarrow> platform" where
  "rig line =
     \<lparr>localtime = gmtime, underflow_erange = glibc_underflow,
      port_opens = (\<lambda>port baud. True),
      port_writes = (\<lambda>tr bytes. True), port_reads = (\<lambda>tr timeout_ms. line)\<rparr>"

definition test_config :: EquipmentConfig where
  "test_config =
     \<lparr>device_port = ''test_port'', baud_rate = 115200, measurement_tolerance = Finite 0.1,
      max_retry_attempts = 3, enable_logging = True, log_file_path = ''test.log''\<rparr>"

section \<open>Shared facts\<close>

lemmas transition_defs = start_def stop_def pause_def resume_def setStatus_def emit_def

lemma perform_follows_table:
  "case perform t s of (ok, s') \<Rightarrow>
     (case table t (status s) of
        Some st \<Rightarrow> ok \<and> status s' = st
      | None \<Rightarrow> \<not> ok \<and> status s' = status s \<and> getLastError s' \<noteq> []
                 \<and> s' = s\<lparr>lastError := getLastError s'\<rparr>)"
  by (cases t) (simp_all add: transition_defs getLastError_def Let_def)

lemma status_perform:
  "status (snd (perform t s)) = (case table t (status s) of Some st' \<Rightarrow> st' | None \<Rightarrow> status s)"
  using perform_follows_table [where t = t and s = s] by (auto split: prod.splits option.splits)

lemma status_perform_all: "status (perform_all ts s) = follow ts (status s)"
  by (induction ts arbitrary: s) (simp_all add: status_perform)

lemma perform_trace:
  "statusCallback s \<Longrightarrow>
   trace (snd (perform t s)) =
     trace s @ (if status (snd (perform t s)) = status s then []
                else [Notified (status (snd (perform t s))) (announcement t)])"
  by (cases t) (simp_all add: transition_defs Let_def)

lemma perform_statusCallback: "statusCallback (snd (perform t s)) = statusCallback s"
  by (cases t) (simp_all add: transition_defs Let_def)

lemma notifications_append: "notifications (es @ fs) = notifications es @ notifications fs"
  by (induction es rule: notifications.induct) simp_all

lemma find_str_sublist: "find_str s pat \<noteq> None \<longleftrightarrow> sublist pat s"
proof (induction s)
  case Nil
  then show ?case by simp
next
  case (Cons c cs)
  then show ?case by (auto simp: sublist_Cons_right)
qed


lemmas hw_defs = sendCommand_def receiveResponse_def isConnected_def

lemmas eval_defs = runTest_def runTest_try_def initialize_def createHardwareInterface_def
  connect_def SerialInterface_new_def transition_defs hw_defs Impl_new_def rig_def bench_def
  test_config_def test_command_def erase_trailing_space_def isspace_def getline_def
  default_TestResult_def Let_def

lemmas stod_defs = stod_def isspace_def strtod_magnitude_def tolower_def mantissa_def isdigit_def
  isxdigit_def digits_val_def xdigit_val_def scale_def exponent_part_def erange_def

text \<open>
  \<^verbatim>\<open>runTest\<close> in status Running on a connected interface whose \<^verbatim>\<open>sendCommand\<close> succeeds:
  the result as a function of the response that \<^verbatim>\<open>receiveResponse\<close> returns.
\<close>

lemma runTest_exchange:
  assumes "status s = RUNNING" and "hardware s = Some hw" and "isConnected hw"
    and "sendCommand pf (trace s) (test_command dev_id ps) hw"
    and "receiveResponse pf (trace s @ [SendCommand (test_command dev_id ps)]) 5000 hw = response"
  shows "runTest pf now1 now2 dev_id ps s =
     (let result = default_TestResult
            \<lparr>device_id := dev_id,
             test_id := ''TEST_'' @ getCurrentTimestamp pf now1,
             timestamp := getCurrentTimestamp pf now2\<rparr>;
          s' = s\<lparr>trace := trace s @ [SendCommand (test_command dev_id ps), ReceiveResponse 5000]\<rparr>;
          tokens = split_tokens (Some response)
      in if response = []
         then (result\<lparr>passed := Some False, notes' := ''No response from device''\<rparr>, s')
         else if 4 \<le> length tokens \<and> tokens ! 0 = ''RESULT''
         then (case stod pf (tokens ! 1) of
                 Inl e \<Rightarrow> (result\<lparr>passed := Some False,
                                   notes' := ''Test execution error: '' @ what e\<rparr>, s')
               | Inr v \<Rightarrow> (result\<lparr>measurement_value := Some v, units := tokens ! 2,
                                   passed := Some (tokens ! 3 = ''PASS''),
                                   notes' := ''Test completed successfully''\<rparr>, s'))
         else (result\<lparr>passed := Some False,
                       notes' := ''Invalid response format: '' @ response\<rparr>, s'))"
  using assms
  by (simp add: runTest_def runTest_try_def emit_def Let_def split: sum.splits)

lemma runTest_ids:
  "test_id (fst (runTest pf now1 now2 dev_id ps s)) = ''TEST_'' @ getCurrentTimestamp pf now1
   \<and> device_id (fst (runTest pf now1 now2 dev_id ps s)) = dev_id"
  by (simp add: runTest_def runTest_try_def default_TestResult_def Let_def
      split: option.splits sum.splits prod.splits)

lemma runTest_lastError: "lastError (snd (runTest pf now1 now2 dev_id ps s)) = lastError s"
  by (simp add: runTest_def runTest_try_def emit_def Let_def
      split: option.splits sum.splits prod.splits)

section \<open>The state machine\<close>

text \<open>
  C1.  Start from a new controller (status Idle) and make any sequence of start, stop,
  pause and resume calls, then one more call.  The call succeeds exactly when the table
  of the specification has a row for it in the current status, and then the status
  becomes the one of that row.  Otherwise it returns false, the status is the same, the
  last error is a non-empty text, and nothing else of the object has changed.  The status
  a sequence ends in is the one the table gives.  Each call returns: the functions are
  total and have no exceptional outcome.
\<close>

theorem transitions_follow_table:
  "let s = perform_all ts Impl_new
   in status s = follow ts IDLE
      \<and> (case perform t s of (ok, s') \<Rightarrow>
           (case table t (status s) of
              Some st \<Rightarrow> ok \<and> status s' = st
            | None \<Rightarrow> \<not> ok \<and> status s' = status s \<and> getLastError s' \<noteq> []
                       \<and> s' = s\<lparr>lastError := getLastError s'\<rparr>))"
proof -
  have "status (perform_all ts Impl_new) = follow ts IDLE"
    by (simp add: status_perform_all Impl_new_def)
  then show ?thesis
    unfolding Let_def using perform_follows_table [where t = t and s = "perform_all ts Impl_new"] by simp
qed

theorem transitions_follow_table_witness:
  "perform Resume (perform_all [Start, Pause, Stop] Impl_new)
     = (False, Impl_new\<lparr>lastError := ''Equipment must be paused to resume''\<rparr>)
   \<and> perform Start (perform_all [Start, Pause] Impl_new)
     = (True, Impl_new\<lparr>status := RUNNING\<rparr>)"
  using transitions_follow_table [where ts = "[Start, Pause, Stop]" and t = Resume]
    transitions_follow_table [where ts = "[Start, Pause]" and t = Start]
  by (simp add: transition_defs Impl_new_def getLastError_def Let_def)

section \<open>Initialisation\<close>

text \<open>
  C2.  Whatever the configuration and the state of the controller, after initialize the
  status is Idle, and initialize returns true exactly when the port could be opened.
  When the port cannot be opened, initialize returns false, the last error is not empty
  and getStatus reports Idle.
\<close>

theorem initialize_leaves_idle:
  "case initialize pf cfg s of (ok, s') \<Rightarrow>
     getStatus s' = IDLE
     \<and> (ok \<longleftrightarrow> port_opens pf (device_port cfg) (baud_rate cfg))
     \<and> (\<not> port_opens pf (device_port cfg) (baud_rate cfg) \<longrightarrow>
          \<not> ok \<and> getLastError s' \<noteq> [] \<and> getStatus s' = IDLE)"
  by (simp add: initialize_def createHardwareInterface_def connect_def setStatus_def emit_def
      getStatus_def getLastError_def Let_def SerialInterface_new_def)

theorem initialize_leaves_idle_witness:
  "\<not> port_opens bench (device_port test_config) (baud_rate test_config)
   \<and> fst (initialize bench test_config Impl_new) = False
   \<and> getLastError (snd (initialize bench test_config Impl_new))
       = ''Failed to connect to device on port test_port''
   \<and> getStatus (snd (initialize bench test_config Impl_new)) = IDLE"
  using initialize_leaves_idle [where pf = bench and cfg = test_config and s = Impl_new]
  by (simp add: initialize_def createHardwareInterface_def connect_def setStatus_def emit_def
      getStatus_def getLastError_def Let_def SerialInterface_new_def bench_def test_config_def
      Impl_new_def)

section \<open>Running a test\<close>

text \<open>
  C3.  When the status is not Running, runTest returns a result with passed = false and
  the note "Equipment not in running state", whatever the device identifier and the
  parameters, and leaves the controller as it was: no event is added, so nothing was sent
  to the transport or received from it.
\<close>

theorem runTest_not_running:
  "status s \<noteq> RUNNING \<Longrightarrow>
   (case runTest pf now1 now2 dev_id test_parameters s of (result, s') \<Rightarrow>
      passed result = Some False \<and> notes' result = ''Equipment not in running state''
      \<and> s' = s \<and> trace s' = trace s)"
  by (simp add: runTest_def Let_def)

theorem runTest_not_running_witness:
  "status Impl_new \<noteq> RUNNING
   \<and> passed (fst (runTest bench 0 0 ''D1'' [''voltage'', ''5.0''] Impl_new)) = Some False
   \<and> trace (snd (runTest bench 0 0 ''D1'' [''voltage'', ''5.0''] Impl_new)) = []"
  using runTest_not_running [where s = Impl_new and pf = bench and ?now1.0 = 0 and ?now2.0 = 0
      and dev_id = "''D1''" and test_parameters = "[''voltage'', ''5.0'']"]
  by (simp add: runTest_def Let_def Impl_new_def)





text \<open>
  C6.  In status Running, on a connected interface that takes the command
  TEST:D1:voltage:5.0 and returns the response RESULT:4.98:V:PASS, runTest for device D1
  with the parameters voltage and 5.0 sends exactly that command, waits for the response
  with a bound of 5000 ms, and returns passed = true, the measurement value 4.98 and the
  units "V"; the status stays Running.
\<close>

theorem runTest_round_trip:
  assumes "status s = RUNNING" and "hardware s = Some hw" and "isConnected hw"
    and "sendCommand pf (trace s) ''TEST:D1:voltage:5.0'' hw"
    and "receiveResponse pf (trace s @ [SendCommand ''TEST:D1:voltage:5.0'']) 5000 hw
           = ''RESULT:4.98:V:PASS''"
  shows "case runTest pf now1 now2 ''D1'' [''voltage'', ''5.0''] s of (result, s') \<Rightarrow>
           passed result = Some True
           \<and> measurement_value result = Some (Finite 4.98)
           \<and> units result = ''V''
           \<and> trace s' = trace s @ [SendCommand ''TEST:D1:voltage:5.0'', ReceiveResponse 5000]
           \<and> status s' = RUNNING"
proof -
  have c: "test_command ''D1'' [''voltage'', ''5.0''] = ''TEST:D1:voltage:5.0''"
    by (simp add: test_command_def)
  have t: "split_tokens (Some ''RESULT:4.98:V:PASS'') = [''RESULT'', ''4.98'', ''V'', ''PASS'']"
    by (simp add: getline_def)
  have v: "stod pf ''4.98'' = Inr (Finite 4.98)"
    by (simp add: stod_defs)
  have w: "sendCommand pf (trace s) (test_command ''D1'' [''voltage'', ''5.0'']) hw"
    using assms(4) by (simp only: c)
  have r: "receiveResponse pf
      (trace s @ [SendCommand (test_command ''D1'' [''voltage'', ''5.0''])]) 5000 hw
        = ''RESULT:4.98:V:PASS''"
    using assms(5) by (simp only: c)
  show ?thesis
    by (simp add: runTest_exchange [OF assms(1-3) w r] c t v Let_def assms(1)
        del: split_tokens.simps)
qed

theorem runTest_round_trip_witness:
  "(let pf = rig (''RESULT:4.98:V:PASS'' @ [CHR 0x0D, CHR 0x0A]);
        s = snd (start (snd (initialize pf test_config Impl_new)));
        result = fst (runTest pf 0 0 ''D1'' [''voltage'', ''5.0''] s)
    in status s = RUNNING
       \<and> passed result = Some True
       \<and> measurement_value result = Some (Finite (249 / 50))
       \<and> units result = ''V'')"
proof -
  let ?pf = "rig (''RESULT:4.98:V:PASS'' @ [CHR 0x0D, CHR 0x0A])"
  let ?s = "snd (start (snd (initialize ?pf test_config Impl_new)))"
  have a: "status ?s = RUNNING" "hardware ?s = Some \<lparr>connected = True\<rparr>"
      "isConnected \<lparr>connected = True\<rparr>"
      "sendCommand ?pf (trace ?s) ''TEST:D1:voltage:5.0'' \<lparr>connected = True\<rparr>"
      "receiveResponse ?pf (trace ?s @ [SendCommand ''TEST:D1:voltage:5.0'']) 5000
         \<lparr>connected = True\<rparr> = ''RESULT:4.98:V:PASS''"
    by (simp_all add: eval_defs)
  show ?thesis
    using runTest_round_trip [OF a, where ?now1.0 = 0 and ?now2.0 = 0] a(1)
    by (simp add: Let_def split: prod.splits)
qed

text \<open>
  Two calls of runTest on one controller, half a second apart within one second of the
  clock, return the same test identifier.
\<close>

theorem same_second_same_test_id:
  "test_id (fst (runTest bench 1700000000000000000 1700000000000000000 ''D1'' [] Impl_new))
     = ''TEST_2023-11-14 22:13:20''
   \<and> test_id (fst (runTest bench 1700000000500000000 1700000000500000000 ''D1'' []
        (snd (runTest bench 1700000000000000000 1700000000000000000 ''D1'' [] Impl_new))))
     = ''TEST_2023-11-14 22:13:20''"
  by code_simp

text \<open>
  C8, as the code has it.  The test identifier is "TEST\_" followed by the local time of
  the first clock reading of the call, written to the second.  Two calls return the same
  identifier exactly when these written times are the same, so in particular when their
  clock readings fall into the same second.  The device identifier of the result is
  always the one the caller passed.
\<close>

theorem test_id_from_clock:
  "test_id (fst (runTest pf now1 now2 dev_id ps s))
     = ''TEST_'' @ put_time (localtime pf (to_time_t now1))
   \<and> device_id (fst (runTest pf now1 now2 dev_id ps s)) = dev_id
   \<and> (test_id (fst (runTest pf now1 now2 dev_id ps s))
        = test_id (fst (runTest pf now1' now2' dev_id' ps' s'))
      \<longleftrightarrow> getCurrentTimestamp pf now1 = getCurrentTimestamp pf now1')
   \<and> (to_time_t now1 = to_time_t now1' \<longrightarrow>
        test_id (fst (runTest pf now1 now2 dev_id ps s))
          = test_id (fst (runTest pf now1' now2' dev_id' ps' s')))"
  by (simp add: runTest_ids getCurrentTimestamp_def)

theorem test_id_from_clock_witness:
  "to_time_t 1700000000000000000 = to_time_t 1700000000999999999
   \<and> test_id (fst (runTest bench 1700000000000000000 0 ''D1'' [] Impl_new))
      = test_id (fst (runTest bench 1700000000999999999 0 ''D2'' [] Impl_new))
   \<and> device_id (fst (runTest bench 1700000000999999999 0 ''D2'' [] Impl_new)) = ''D2''"
  using test_id_from_clock [where pf = bench and ?now1.0 = 1700000000000000000
      and now1' = 1700000000999999999 and ?now2.0 = 0 and now2' = 0 and dev_id = "''D1''"
      and dev_id' = "''D2''" and ps = "[]" and ps' = "[]" and s = Impl_new and s' = Impl_new]
    test_id_from_clock [where pf = bench and ?now1.0 = 1700000000999999999
      and now1' = 1700000000999999999 and ?now2.0 = 0 and now2' = 0 and dev_id = "''D2''"
      and dev_id' = "''D2''" and ps = "[]" and ps' = "[]" and s = Impl_new and s' = Impl_new]
  by (simp add: to_time_t_def)

section \<open>Calibration\<close>

text \<open>
  C4.  In a status other than Idle, calibrate returns false and changes neither the
  status nor the events.  In status Idle it writes Maintenance (telling the subscriber),
  sleeps for 2000 ms and then, when an interface exists and is connected, sends CALIBRATE
  and waits for a response with a bound of 10000 ms.  It returns true exactly when the
  interface is connected and the response contains CAL\_OK, and then the status is Idle;
  in every other case, a missing or disconnected interface included, it returns false and
  the status is Error.  With a disconnected interface nothing is sent.
\<close>

theorem calibrate_only_from_idle:
  "case calibrate pf s of (ok, s') \<Rightarrow>
     (status s \<noteq> IDLE \<longrightarrow> \<not> ok \<and> status s' = status s \<and> trace s' = trace s)
     \<and> (status s = IDLE \<longrightarrow>
          (let up = (case hardware s of None \<Rightarrow> False | Some hw \<Rightarrow> isConnected hw);
               begun = trace s @ told s MAINTENANCE ''Calibration in progress'' @ [SleepFor 2000];
               response = (case hardware s of
                             None \<Rightarrow> []
                           | Some hw \<Rightarrow>
                               receiveResponse pf (begun @ [SendCommand ''CALIBRATE'']) 10000 hw)
           in (ok \<longleftrightarrow> up \<and> sublist ''CAL_OK'' response)
              \<and> status s' = (if ok then IDLE else ERROR)
              \<and> trace s' =
                  begun @ (if up then [SendCommand ''CALIBRATE'', ReceiveResponse 10000] else [])
                    @ told s (if ok then IDLE else ERROR)
                        (if ok then ''Calibration completed successfully''
                         else ''Calibration failed'')))"
  by (simp add: calibrate_def setStatus_def emit_def told_def Let_def find_str_sublist [symmetric]
      split: option.splits)

theorem calibrate_only_from_idle_witness:
  "(let pf = rig ''ACK CAL_OK''; s = snd (initialize pf test_config Impl_new)
    in status s = IDLE \<and> calibrate pf s =
         (True, s\<lparr>trace := trace s @ [SleepFor 2000, SendCommand ''CALIBRATE'',
                                       ReceiveResponse 10000]\<rparr>))
   \<and> (let s = snd (initialize bench test_config Impl_new)
      in status s = IDLE \<and> calibrate bench s =
           (False, s\<lparr>status := ERROR, trace := trace s @ [SleepFor 2000]\<rparr>))
   \<and> (let s = snd (start Impl_new)
      in status s \<noteq> IDLE \<and> calibrate bench s =
           (False, s\<lparr>lastError := ''Equipment must be idle for calibration''\<rparr>))"
  using calibrate_only_from_idle [where pf = "rig ''ACK CAL_OK''"
      and s = "snd (initialize (rig ''ACK CAL_OK'') test_config Impl_new)"]
    calibrate_only_from_idle [where pf = bench
      and s = "snd (initialize bench test_config Impl_new)"]
    calibrate_only_from_idle [where pf = bench and s = "snd (start Impl_new)"]
  by (simp add: calibrate_def eval_defs told_def find_str_sublist [symmetric])

section \<open>Status notifications\<close>

text \<open>
  On a new controller with a callback registered, pause fails (the status is Idle) and the
  callback is not called: no event is recorded.
\<close>

theorem failed_pause_is_not_notified:
  "statusCallback (setStatusCallback True Impl_new)
   \<and> fst (pause (setStatusCallback True Impl_new)) = False
   \<and> trace (snd (pause (setStatusCallback True Impl_new))) = []"
  by (simp add: pause_def setStatusCallback_def Impl_new_def)

text \<open>
  C7, as the code has it.  With a callback registered, a start, stop, pause or resume
  that changes the status calls the callback once, with the new status and the message
  of the request, before it returns; a request that fails, and a stop in status Idle,
  call nothing.  Over any sequence of requests the subscriber has seen exactly the
  statuses that were committed, in the order they were committed.  A calibrate started in
  status Idle calls the callback twice, first with Maintenance and then with the final
  status; in any other status it calls nothing.
\<close>

theorem status_changes_are_notified:
  assumes "statusCallback s"
  shows "trace (snd (perform t s)) =
           trace s @ (if status (snd (perform t s)) = status s then []
                      else [Notified (status (snd (perform t s))) (announcement t)])
         \<and> (fst (perform t s) = False \<longrightarrow> trace (snd (perform t s)) = trace s)
         \<and> map fst (notifications (trace (perform_all ts s))) =
             map fst (notifications (trace s)) @ committed ts (status s)
         \<and> notifications (trace (snd (calibrate pf s))) =
             notifications (trace s) @
               (if status s = IDLE
                then [(MAINTENANCE, ''Calibration in progress''),
                      (status (snd (calibrate pf s)),
                       if fst (calibrate pf s) then ''Calibration completed successfully''
                       else ''Calibration failed'')]
                else [])"
proof -
  have failed: "fst (perform t s) = False \<longrightarrow> trace (snd (perform t s)) = trace s"
    by (cases t) (simp_all add: transition_defs Let_def)
  have seq: "map fst (notifications (trace (perform_all ts s))) =
      map fst (notifications (trace s)) @ committed ts (status s)"
    using assms
  proof (induction ts arbitrary: s)
    case Nil
    then show ?case by simp
  next
    case (Cons t ts)
    let ?s1 = "snd (perform t s)"
    have cb: "statusCallback ?s1"
      using Cons.prems by (simp add: perform_statusCallback)
    have st: "status ?s1 = (case table t (status s) of Some st' \<Rightarrow> st' | None \<Rightarrow> status s)"
      by (rule status_perform)
    have tr: "map fst (notifications (trace ?s1)) =
        map fst (notifications (trace s)) @ (if status ?s1 = status s then [] else [status ?s1])"
      by (simp add: perform_trace [OF Cons.prems] notifications_append)
    show ?case
      using Cons.IH [OF cb] tr st by (auto split: option.splits)
  qed
  have cal: "notifications (trace (snd (calibrate pf s))) =
      notifications (trace s) @
        (if status s = IDLE
         then [(MAINTENANCE, ''Calibration in progress''),
               (status (snd (calibrate pf s)),
                if fst (calibrate pf s) then ''Calibration completed successfully''
                else ''Calibration failed'')]
         else [])"
    using assms
    by (simp add: calibrate_def setStatus_def emit_def Let_def notifications_append
        split: option.splits)
  show ?thesis
    using perform_trace [OF assms] failed seq cal by simp
qed

theorem status_changes_are_notified_witness:
  "statusCallback (setStatusCallback True Impl_new)
   \<and> map fst (notifications (trace (perform_all [Start, Start, Pause, Resume, Stop, Stop]
         (setStatusCallback True Impl_new)))) = [RUNNING, PAUSED, RUNNING, IDLE]
   \<and> notifications (trace (snd (calibrate bench (setStatusCallback True Impl_new))))
       = [(MAINTENANCE, ''Calibration in progress''), (ERROR, ''Calibration failed'')]"
proof -
  have cb: "statusCallback (setStatusCallback True Impl_new)"
    by (simp add: setStatusCallback_def)
  show ?thesis
    using status_changes_are_notified [OF cb, where ts = "[Start, Start, Pause, Resume, Stop, Stop]"
        and pf = bench and t = Start]
    by (simp add: setStatusCallback_def Impl_new_def calibrate_def setStatus_def emit_def)
qed

section \<open>The last error\<close>

lemma call_frame:
  "fst (call pf c s) \<Longrightarrow> lastError (snd (call pf c s)) = lastError s"
proof (cases c)
  case (Initialize cfg)
  assume "fst (call pf c s)"
  with Initialize show ?thesis
    by (auto simp: initialize_def createHardwareInterface_def SerialInterface_new_def connect_def
        setStatus_def emit_def Let_def split: if_splits)
next
  case (Change t)
  assume "fst (call pf c s)"
  with Change show ?thesis
    by (cases t) (auto simp: transition_defs Let_def split: if_splits)
next
  case (RunTest now1 now2 dev_id ps)
  then show ?thesis by (simp add: runTest_lastError case_prod_beta)
next
  case Calibrate
  assume "fst (call pf c s)"
  with Calibrate show ?thesis
    by (auto simp: calibrate_def setStatus_def emit_def Let_def split: if_splits option.splits)
qed (simp_all add: setStatusCallback_def getHealthMetrics_def)

lemma call_keeps_error: "lastError s \<noteq> [] \<Longrightarrow> lastError (snd (call pf c s)) \<noteq> []"
proof (cases c)
  case (Initialize cfg)
  assume "lastError s \<noteq> []"
  with Initialize show ?thesis
    by (auto simp: initialize_def createHardwareInterface_def SerialInterface_new_def connect_def
        setStatus_def emit_def Let_def split: if_splits)
next
  case (Change t)
  assume "lastError s \<noteq> []"
  with Change show ?thesis
    by (cases t) (auto simp: transition_defs Let_def split: if_splits)
next
  case (RunTest now1 now2 dev_id ps)
  assume "lastError s \<noteq> []"
  with RunTest show ?thesis by (simp add: runTest_lastError case_prod_beta)
next
  case Calibrate
  assume "lastError s \<noteq> []"
  with Calibrate show ?thesis
    by (auto simp: calibrate_def setStatus_def emit_def Let_def split: if_splits option.splits)
qed (simp_all add: setStatusCallback_def getHealthMetrics_def)

lemma call_quiet:
  "is_RunTest c \<or> fst (call pf c s) \<Longrightarrow> lastError (snd (call pf c s)) = lastError s"
  using call_frame [of pf c s]
  by (cases c) (auto simp: runTest_lastError case_prod_beta)

lemma quiet_frame: "quiet pf cs s \<Longrightarrow> lastError (snd (call_all pf cs s)) = lastError s"
proof (induction cs arbitrary: s)
  case Nil
  then show ?case by simp
next
  case (Cons c cs)
  from Cons.prems have q: "is_RunTest c \<or> fst (call pf c s)"
    and r: "quiet pf cs (snd (call pf c s))" by simp_all
  have "lastError (snd (call_all pf (c # cs) s)) = lastError (snd (call_all pf cs (snd (call pf c s))))"
    by (simp add: case_prod_beta)
  also have "\<dots> = lastError (snd (call pf c s))" by (rule Cons.IH [OF r])
  also have "\<dots> = lastError s" by (rule call_quiet [OF q])
  finally show ?case .
qed

lemma call_records:
  "\<not> fst (call pf c s) \<Longrightarrow> recorded c s = Some m \<Longrightarrow> lastError (snd (call pf c s)) = m"
proof (cases c)
  case (Initialize cfg)
  assume "\<not> fst (call pf c s)" and "recorded c s = Some m"
  with Initialize show ?thesis
    by (auto simp: initialize_def createHardwareInterface_def SerialInterface_new_def connect_def
        setStatus_def emit_def Let_def split: if_splits)
next
  case (Change t)
  assume "\<not> fst (call pf c s)" and "recorded c s = Some m"
  with Change show ?thesis
    by (cases t) (auto simp: transition_defs Let_def split: if_splits)
next
  case Calibrate
  assume "\<not> fst (call pf c s)" and "recorded c s = Some m"
  with Calibrate show ?thesis
    by (auto simp: calibrate_def split: if_splits)
qed simp_all

lemma call_all_keeps_error:
  "lastError s \<noteq> [] \<Longrightarrow> lastError (snd (call_all pf cs s)) \<noteq> []"
proof (induction cs arbitrary: s)
  case Nil
  then show ?case by simp
next
  case (Cons c cs)
  have "lastError (snd (call pf c s)) \<noteq> []"
    using Cons.prems by (rule call_keeps_error)
  then have "lastError (snd (call_all pf cs (snd (call pf c s)))) \<noteq> []"
    by (rule Cons.IH)
  then show ?case by (simp add: case_prod_beta)
qed

text \<open>
  A failed runTest on a new controller leaves the last error empty, and a calibrate that
  fails on the hardware after a refused pause leaves the message of the pause: in both
  cases getLastError does not return a message of the most recent failed operation.
\<close>

theorem failures_without_last_error:
  "passed (fst (runTest bench 0 0 ''D1'' [] Impl_new)) = Some False
   \<and> getLastError (snd (runTest bench 0 0 ''D1'' [] Impl_new)) = []
   \<and> fst (calibrate bench (snd (pause Impl_new))) = False
   \<and> getLastError (snd (calibrate bench (snd (pause Impl_new))))
       = ''Equipment must be running to pause''"
  by (simp add: runTest_def calibrate_def pause_def setStatus_def emit_def Impl_new_def
      getLastError_def Let_def)

text \<open>
  C9, as the code has it.  Take any state and any list of public operations with any
  arguments.  When every operation of the list succeeds or is a runTest (which reports in
  the notes of its result and never writes the last error), getLastError returns
  afterwards what it returned before.  So after a failed operation that records a message
  (a request refused in the current status, an initialize whose connect fails, a calibrate
  called outside Idle) getLastError returns that message, and keeps returning it over any
  number of such operations that follow.  Whatever the operations do, a last error that is
  not empty never becomes empty again.
\<close>

theorem last_error_is_latest_recorded:
  "(quiet pf cs s \<longrightarrow> getLastError (snd (call_all pf cs s)) = getLastError s)
   \<and> (\<not> fst (call pf c s) \<and> recorded c s = Some m \<and> quiet pf cs (snd (call pf c s)) \<longrightarrow>
        getLastError (snd (call pf c s)) = m
        \<and> getLastError (snd (call_all pf (c # cs) s)) = m)
   \<and> (getLastError s \<noteq> [] \<longrightarrow> getLastError (snd (call_all pf cs s)) \<noteq> [])"
  using quiet_frame [of pf cs s] quiet_frame [of pf cs "snd (call pf c s)"]
    call_records [of pf c s m] call_all_keeps_error [of s pf cs]
  by (auto simp: getLastError_def split: prod.splits)

theorem last_error_is_latest_recorded_witness:
  "\<not> fst (call bench (Change Pause) Impl_new)
   \<and> recorded (Change Pause) Impl_new = Some ''Equipment must be running to pause''
   \<and> quiet bench [Change Start, Change Pause, GetStatus, Change Resume, RunTest 0 0 ''D1'' [],
        Change Stop, GetHealthMetrics, SetStatusCallback True, GetLastError]
        (snd (call bench (Change Pause) Impl_new))
   \<and> getLastError (snd (call_all bench [Change Pause, Change Start, Change Pause, GetStatus,
        Change Resume, RunTest 0 0 ''D1'' [], Change Stop, GetHealthMetrics,
        SetStatusCallback True, GetLastError] Impl_new))
      = ''Equipment must be running to pause''"
  using last_error_is_latest_recorded [where pf = bench and s = Impl_new and c = "Change Pause"
      and m = "''Equipment must be running to pause''"
      and cs = "[Change Start, Change Pause, GetStatus, Change Resume, RunTest 0 0 ''D1'' [],
        Change Stop, GetHealthMetrics, SetStatusCallback True, GetLastError]"]
  by (simp add: transition_defs Impl_new_def getLastError_def setStatusCallback_def
      getHealthMetrics_def runTest_def bench_def Let_def)

section \<open>Health metrics\<close>

text \<open>
  C10.  In every state of the controller getHealthMetrics returns the same five pairs, in
  the same order: Temperature 23.5, Vibration 0.02, Power\_Consumption 125.3,
  Uptime\_Hours 1234.5 and Error\_Rate 0.001.  The names are distinct, the result does not
  depend on the state, and the call leaves the state, its events included, as it was.
\<close>

theorem health_metrics_are_fixed:
  "getHealthMetrics s =
     ([(''Temperature'', Finite 23.5), (''Vibration'', Finite 0.02),
       (''Power_Consumption'', Finite 125.3), (''Uptime_Hours'', Finite 1234.5),
       (''Error_Rate'', Finite 0.001)], s)
   \<and> fst (getHealthMetrics s) = fst (getHealthMetrics s')
   \<and> trace (snd (getHealthMetrics s)) = trace s
   \<and> distinct (map fst (fst (getHealthMetrics s)))"
  by (simp add: getHealthMetrics_def)

end
